theory Spec2Isabelle
  imports Complex_Main "HOL-Library.Log_Nat"
begin

section \<open>Conventions\<close>

text \<open>
  Every method that mutates its object takes the object and returns the updated
  one next to its result. A Python exception is a value of \<open>py_error\<close>; a method
  that may raise returns \<open>py_error + 'a\<close> together with the object as the
  exception leaves it. A division by zero raises \<open>ZeroDivisionError\<close>, as it does
  on Python's own floats.

  The simulator computes on Python floats. The methods are given twice. The
  first form computes in exact arithmetic, on the reals: it carries everything
  that does not depend on rounding (which branch runs, which field receives
  which value, what is clamped against what). The second form of the battery's
  methods, with names ending in \<open>64\<close>, rounds every operation as a binary64
  float does: it decides what the battery holds after a clamp.
\<close>

datatype py_error = ZeroDivisionError | IndexError | ValueError string

section \<open>Python floats: binary64 arithmetic\<close>

text \<open>
  A Python float is an IEEE 754 binary64 number, and each arithmetic operation
  returns the exact result rounded to the nearest number with a significand of
  53 bits, a tie going to the even significand. A finite double is modelled as
  the real it denotes. \<open>exponent64 x\<close> is the exponent \<open>e\<close> that brings
  \<open>\<bar>x\<bar> / 2 ^ e\<close> into \<open>[2 ^ 52, 2 ^ 53)\<close>, and \<open>round64 x\<close> rounds \<open>x / 2 ^ e\<close> to
  an integer, half to even, and scales it back. The exponent is unbounded:
  overflow to an infinity and the subnormal numbers are outside the model. A
  decimal literal of the source denotes \<open>round64\<close> of its value.
\<close>

definition pow2 :: "int \<Rightarrow> real" where
  "pow2 e = (if e \<ge> 0 then 2 ^ nat e else 1 / 2 ^ nat (- e))"

definition round_half_even :: "real \<Rightarrow> int" where
  "round_half_even s =
     (let q = \<lfloor>s\<rfloor>; f = s - of_int q
      in if f > 1/2 \<or> (f = 1/2 \<and> odd q) then q + 1 else q)"

definition exponent64 :: "real \<Rightarrow> int" where
  "exponent64 x =
     (let a = \<bar>x\<bar>;
          e = (if a \<ge> 1 then bitlen \<lfloor>a\<rfloor> - 53 else - bitlen \<lfloor>1 / a\<rfloor> - 52)
      in if a / pow2 e \<ge> 2 ^ 53 then e + 1 else e)"

definition round64 :: "real \<Rightarrow> real" where
  "round64 x =
     (if x = 0 then 0
      else (let e = exponent64 x in of_int (round_half_even (x / pow2 e)) * pow2 e))"

definition fadd :: "real \<Rightarrow> real \<Rightarrow> real" where
  "fadd x y = round64 (x + y)"

definition fsub :: "real \<Rightarrow> real \<Rightarrow> real" where
  "fsub x y = round64 (x - y)"

definition fmul :: "real \<Rightarrow> real \<Rightarrow> real" where
  "fmul x y = round64 (x * y)"

definition fdiv :: "real \<Rightarrow> real \<Rightarrow> real" where
  "fdiv x y = round64 (x / y)"

section \<open>lib.utils\<close>

text \<open>
  Modelled from the spec: \<open>naive_energy\<close> and \<open>naive_power\<close> of lib.utils, which
  lib/boat_model.py imports and whose file is not among the sources. The
  specification gives the energy of a power held for a time as
  \<open>power * dt / 3600\<close> and the power as "the inverse of the same time-power
  relation". The inverse divides by the time, which Python refuses at zero.
  Both call sites pass the timebase 3600.
\<close>

definition naive_energy :: "real \<Rightarrow> real \<Rightarrow> real \<Rightarrow> real" where
  "naive_energy power' time timebase = power' * time / timebase"

definition naive_power :: "real \<Rightarrow> real \<Rightarrow> real \<Rightarrow> py_error + real" where
  "naive_power energy time timebase =
     (if time = 0 then Inl ZeroDivisionError else Inr (energy * timebase / time))"

text \<open>
  Modelled from the spec: the same two functions of lib.utils on doubles, the
  product rounded and then the quotient.
\<close>

definition naive_energy64 :: "real \<Rightarrow> real \<Rightarrow> real \<Rightarrow> real" where
  "naive_energy64 power' time timebase = fdiv (fmul power' time) timebase"

definition naive_power64 :: "real \<Rightarrow> real \<Rightarrow> real \<Rightarrow> py_error + real" where
  "naive_power64 energy time timebase =
     (if time = 0 then Inl ZeroDivisionError else Inr (fdiv (fmul energy timebase) time))"

section \<open>lib.boat_model: Panel\<close>

record Panel =
  efficiency :: real
  area :: real
  maximum_output_power :: real

definition Panel_solve_output :: "Panel \<Rightarrow> real \<Rightarrow> real" where
  "Panel_solve_output self irradiation =
     (let input_power = irradiation * area self;
          output_power = input_power * Panel.efficiency self
      in if output_power > maximum_output_power self then maximum_output_power self
         else output_power)"

section \<open>lib.boat_model: Battery\<close>

record Battery =
  efficiency :: real
  energy :: real
  soc :: real
  minimum_soc :: real
  maximum_energy :: real
  minimum_energy :: real
  maximum_power :: real

definition Battery_init :: "real \<Rightarrow> real \<Rightarrow> real \<Rightarrow> real \<Rightarrow> real \<Rightarrow> Battery" where
  "Battery_init soc_0 minimum_soc_0 efficiency_0 maximum_energy_0 maximum_power_0 =
     \<lparr> efficiency = efficiency_0,
       energy = soc_0 * maximum_energy_0,
       soc = soc_0,
       minimum_soc = minimum_soc_0,
       maximum_energy = maximum_energy_0,
       minimum_energy = maximum_energy_0 * minimum_soc_0,
       maximum_power = maximum_power_0 \<rparr>"

definition Battery_charge :: "real \<Rightarrow> real \<Rightarrow> Battery \<Rightarrow> (py_error + real) \<times> Battery" where
  "Battery_charge dt power' self =
     (let added = naive_energy power' dt 3600;
          self1 = self\<lparr>energy := energy self + added * Battery.efficiency self\<rparr>
      in if energy self1 > maximum_energy self1 then
           (let exceeded_energy = energy self1 - maximum_energy self1;
                self2 = self1\<lparr>energy := energy self1 - exceeded_energy\<rparr>
            in case naive_power exceeded_energy dt 3600 of
                 Inl e \<Rightarrow> (Inl e, self2)
               | Inr exceeded_power \<Rightarrow> (Inr (power' - exceeded_power), self2))
         else (Inr power', self1))"

definition Battery_discharge :: "real \<Rightarrow> real \<Rightarrow> Battery \<Rightarrow> (py_error + real) \<times> Battery" where
  "Battery_discharge dt power' self =
     (let removed = naive_energy power' dt 3600;
          self1 = self\<lparr>energy := energy self - removed * Battery.efficiency self\<rparr>
      in if energy self1 < minimum_energy self1 then
           (let exceeded_energy = minimum_energy self1 - energy self1;
                self2 = self1\<lparr>energy := energy self1 + exceeded_energy\<rparr>
            in case naive_power exceeded_energy dt 3600 of
                 Inl e \<Rightarrow> (Inl e, self2)
               | Inr exceeded_power \<Rightarrow> (Inr (power' - exceeded_power), self2))
         else (Inr power', self1))"

text \<open>
  \<open>solve\<close> negates what \<open>_discharge\<close> returns, then recomputes \<open>soc\<close>; the
  division raises when \<open>maximum_energy\<close> is zero. An exception of either branch
  leaves before \<open>soc\<close> is assigned.
\<close>

definition Battery_solve :: "real \<Rightarrow> real \<Rightarrow> Battery \<Rightarrow> (py_error + real) \<times> Battery" where
  "Battery_solve dt target_power self =
     (let (r, self1) =
            (if target_power > 0 then Battery_charge dt \<bar>target_power\<bar> self
             else (case Battery_discharge dt \<bar>target_power\<bar> self of
                     (Inl e, s) \<Rightarrow> (Inl e, s)
                   | (Inr p, s) \<Rightarrow> (Inr (- p), s)))
      in case r of
           Inl e \<Rightarrow> (Inl e, self1)
         | Inr power' \<Rightarrow>
             if maximum_energy self1 = 0 then (Inl ZeroDivisionError, self1)
             else (Inr power', self1\<lparr>soc := energy self1 / maximum_energy self1\<rparr>))"

subsection \<open>The battery on doubles\<close>

text \<open>
  The same methods with every operation of the source rounded: \<open>+=\<close> and \<open>-=\<close>
  are an addition and a subtraction followed by the assignment. Negation and
  the absolute value are exact on doubles, and so are the comparisons.
\<close>

definition Battery_init64 :: "real \<Rightarrow> real \<Rightarrow> real \<Rightarrow> real \<Rightarrow> real \<Rightarrow> Battery" where
  "Battery_init64 soc_0 minimum_soc_0 efficiency_0 maximum_energy_0 maximum_power_0 =
     \<lparr> Battery.efficiency = efficiency_0,
       energy = fmul soc_0 maximum_energy_0,
       soc = soc_0,
       minimum_soc = minimum_soc_0,
       maximum_energy = maximum_energy_0,
       minimum_energy = fmul maximum_energy_0 minimum_soc_0,
       maximum_power = maximum_power_0 \<rparr>"

definition Battery_charge64 :: "real \<Rightarrow> real \<Rightarrow> Battery \<Rightarrow> (py_error + real) \<times> Battery" where
  "Battery_charge64 dt power' self =
     (let added = naive_energy64 power' dt 3600;
          self1 = self\<lparr>energy := fadd (energy self) (fmul added (Battery.efficiency self))\<rparr>
      in if energy self1 > maximum_energy self1 then
           (let exceeded_energy = fsub (energy self1) (maximum_energy self1);
                self2 = self1\<lparr>energy := fsub (energy self1) exceeded_energy\<rparr>
            in case naive_power64 exceeded_energy dt 3600 of
                 Inl e \<Rightarrow> (Inl e, self2)
               | Inr exceeded_power \<Rightarrow> (Inr (fsub power' exceeded_power), self2))
         else (Inr power', self1))"

definition Battery_discharge64 :: "real \<Rightarrow> real \<Rightarrow> Battery \<Rightarrow> (py_error + real) \<times> Battery" where
  "Battery_discharge64 dt power' self =
     (let removed = naive_energy64 power' dt 3600;
          self1 = self\<lparr>energy := fsub (energy self) (fmul removed (Battery.efficiency self))\<rparr>
      in if energy self1 < minimum_energy self1 then
           (let exceeded_energy = fsub (minimum_energy self1) (energy self1);
                self2 = self1\<lparr>energy := fadd (energy self1) exceeded_energy\<rparr>
            in case naive_power64 exceeded_energy dt 3600 of
                 Inl e \<Rightarrow> (Inl e, self2)
               | Inr exceeded_power \<Rightarrow> (Inr (fsub power' exceeded_power), self2))
         else (Inr power', self1))"

definition Battery_solve64 :: "real \<Rightarrow> real \<Rightarrow> Battery \<Rightarrow> (py_error + real) \<times> Battery" where
  "Battery_solve64 dt target_power self =
     (let (r, self1) =
            (if target_power > 0 then Battery_charge64 dt \<bar>target_power\<bar> self
             else (case Battery_discharge64 dt \<bar>target_power\<bar> self of
                     (Inl e, s) \<Rightarrow> (Inl e, s)
                   | (Inr p, s) \<Rightarrow> (Inr (- p), s)))
      in case r of
           Inl e \<Rightarrow> (Inl e, self1)
         | Inr power' \<Rightarrow>
             if maximum_energy self1 = 0 then (Inl ZeroDivisionError, self1)
             else (Inr power', self1\<lparr>soc := fdiv (energy self1) (maximum_energy self1)\<rparr>))"

section \<open>lib.boat_model: the converter stages and the hull\<close>

record Other =
  power :: real

text \<open>\<open>np.clip(x, lo, hi)\<close> of numpy is \<open>minimum(maximum(x, lo), hi)\<close>.\<close>

definition np_clip :: "real \<Rightarrow> real \<Rightarrow> real \<Rightarrow> real" where
  "np_clip x lo hi = min (max x lo) hi"

record ESC =
  efficiency :: real
  maximum_input_power :: real

definition ESC_solve_input :: "ESC \<Rightarrow> real \<Rightarrow> real" where
  "ESC_solve_input self throttle =
     (let throttle1 = np_clip throttle 0 1;
          input_power = throttle1 * ESC.maximum_input_power self
      in if input_power > ESC.maximum_input_power self then ESC.maximum_input_power self
         else input_power)"

definition ESC_solve_output :: "ESC \<Rightarrow> real \<Rightarrow> real" where
  "ESC_solve_output self input_power = input_power * ESC.efficiency self"

record Motor =
  efficiency :: real
  maximum_input_power :: real

definition Motor_solve_input :: "Motor \<Rightarrow> real \<Rightarrow> real" where
  "Motor_solve_input self input_power =
     (if input_power > Motor.maximum_input_power self then Motor.maximum_input_power self
      else input_power)"

definition Motor_solve_output :: "Motor \<Rightarrow> real \<Rightarrow> real" where
  "Motor_solve_output self input_power = input_power * Motor.efficiency self"

record Propulsion =
  efficiency :: real
  maximum_input_power :: real

definition Propulsion_solve_input :: "Propulsion \<Rightarrow> real \<Rightarrow> real" where
  "Propulsion_solve_input self input_power =
     (if input_power > Propulsion.maximum_input_power self
      then Propulsion.maximum_input_power self
      else input_power)"

definition Propulsion_solve_output :: "Propulsion \<Rightarrow> real \<Rightarrow> real" where
  "Propulsion_solve_output self input_power = input_power * Propulsion.efficiency self"

record Hull =
  speed_over_power_constant :: real

definition Hull_solve_output :: "Hull \<Rightarrow> real \<Rightarrow> real" where
  "Hull_solve_output self propulsion_power =
     propulsion_power * speed_over_power_constant self"

section \<open>lib.boat_model: Boat\<close>

text \<open>
  Modelled from the spec: the record type \<open>BoatOutputData\<close> of lib.boat_data, whose
  file is not among the sources. Its fields are those the constructor call at the
  end of \<open>Boat.run\<close> names, "all target and actual power values at every stage,
  battery energy/SOC, hull speed, motor throttle".
\<close>

record BoatOutputData =
  pv_output_power :: real
  battery_stored_energy :: real
  battery_soc :: real
  battery_output_power :: real
  esc_input_power :: real
  esc_output_power :: real
  motor_output_power :: real
  propulsive_output_power :: real
  hull_speed :: real
  pv_target_power :: real
  esc_target_power :: real
  battery_target_power :: real
  motor_target_throttle :: real

record Boat =
  panel :: Panel
  battery :: Battery
  circuits :: Other
  esc :: ESC
  motor :: Motor
  propulsion :: Propulsion
  hull' :: Hull

text \<open>
  The field \<open>hull\<close> of the source is \<open>hull'\<close> here, \<open>hull\<close> being an infix
  operator of the library. The target of step 1 for the propulsion chain is three
  input-side clamps.
\<close>

definition target_esc_input :: "Boat \<Rightarrow> real \<Rightarrow> real" where
  "target_esc_input self motor_throttle =
     Propulsion_solve_input (propulsion self)
       (Motor_solve_input (motor self) (ESC_solve_input (esc self) motor_throttle))"

text \<open>
  \<open>Boat.run\<close>. The record is built with the keyword arguments of the source, where
  \<open>esc_target_power\<close> receives the battery's target and \<open>battery_target_power\<close>
  the propulsion chain's, and \<open>motor_output_power\<close> receives the ESC's output.
\<close>

definition Boat_run :: "real \<Rightarrow> real \<Rightarrow> real \<Rightarrow> Boat \<Rightarrow> (py_error + BoatOutputData) \<times> Boat" where
  "Boat_run dt irradiation motor_throttle self =
     (let target_circuits_input_power = Other.power (circuits self);
          target_pv_output_power = Panel_solve_output (panel self) irradiation;
          target_esc_input_power = target_esc_input self motor_throttle;
          target_battery_power =
            target_pv_output_power - target_esc_input_power - target_circuits_input_power;
          (r, battery1) = Battery_solve dt target_battery_power (battery self);
          self1 = self\<lparr>battery := battery1\<rparr>
      in case r of
           Inl e \<Rightarrow> (Inl e, self1)
         | Inr actual_battery_power \<Rightarrow>
             (let actual_circuits_input_power = target_circuits_input_power;
                  pv0 = actual_battery_power + target_esc_input_power
                          + actual_circuits_input_power;
                  actual_pv_output_power =
                    (if pv0 > target_pv_output_power then target_pv_output_power else pv0);
                  esc0 = actual_pv_output_power - actual_battery_power
                           - actual_circuits_input_power;
                  actual_esc_input_power =
                    (if esc0 > target_esc_input_power then target_esc_input_power else esc0);
                  actual_esc_output_power = ESC_solve_output (esc self) actual_esc_input_power;
                  actual_motor_output_power =
                    Motor_solve_output (motor self) actual_esc_output_power;
                  actual_propulsive_output_power =
                    Propulsion_solve_output (propulsion self) actual_motor_output_power;
                  actual_hull_speed =
                    Hull_solve_output (hull' self) actual_propulsive_output_power
              in (Inr \<lparr> pv_output_power = actual_pv_output_power,
                        battery_stored_energy = energy (battery self1),
                        battery_soc = soc (battery self1),
                        battery_output_power = actual_battery_power,
                        esc_input_power = actual_esc_input_power,
                        esc_output_power = actual_esc_output_power,
                        motor_output_power = actual_esc_output_power,
                        propulsive_output_power = actual_propulsive_output_power,
                        hull_speed = actual_hull_speed,
                        pv_target_power = target_pv_output_power,
                        esc_target_power = target_battery_power,
                        battery_target_power = target_esc_input_power,
                        motor_target_throttle = motor_throttle \<rparr>,
                  self1)))"

section \<open>lib.competition_model\<close>

text \<open>
  Modelled from the spec: the types of lib.boat_data and lib.event_model that
  \<open>Competition.run\<close> reads and whose files are not among the sources. An input
  series is the list of its rows in order, each with its \<open>time\<close>; an event
  carries \<open>data.start\<close> and \<open>data.end\<close>, "a [start, end] time window, both ends
  included". Timestamps are integers (nanoseconds of a \<open>datetime64\<close>).
\<close>

record BoatInputData =
  time :: int
  poa :: real

type_synonym BoatInputDataSet = "BoatInputData list"

record EventInputData =
  start :: int
  finish :: int

record Event =
  data :: EventInputData

record 'r CompetitionResult =
  name :: string
  results :: "'r list"

record Competition =
  name :: string
  events :: "Event list"

text \<open>
  \<open>Event.run\<close> is an external collaborator: it is a parameter \<open>event_run\<close>, any
  function of the event, the rows of its window, the boat and the energy
  controller that returns a result or raises, and leaves a boat and a controller.
\<close>

type_synonym ('c, 'r) event_run =
  "Event \<Rightarrow> BoatInputDataSet \<Rightarrow> Boat \<Rightarrow> 'c \<Rightarrow> (py_error + 'r) \<times> Boat \<times> 'c"

definition in_window :: "int \<Rightarrow> int \<Rightarrow> BoatInputDataSet \<Rightarrow> BoatInputDataSet" where
  "in_window lo hi input_data = filter (\<lambda>row. time row \<ge> lo \<and> time row \<le> hi) input_data"

definition Competition_check_input :: "BoatInputDataSet \<Rightarrow> int \<Rightarrow> int \<Rightarrow> py_error + unit" where
  "Competition_check_input input_data competition_start competition_end =
     (case input_data of
        [] \<Rightarrow> Inl IndexError
      | _ # _ \<Rightarrow>
          if time (hd input_data) > competition_start
          then Inl (ValueError ''Given data can't start after the first event's start'')
          else if time (last input_data) < competition_end
          then Inl (ValueError ''Given data can't end before the first event's end.'')
          else Inr ())"

fun run_events ::
  "('c, 'r) event_run \<Rightarrow> Event list \<Rightarrow> BoatInputDataSet \<Rightarrow> Boat \<Rightarrow> 'c \<Rightarrow> 'r list
     \<Rightarrow> (py_error + 'r list) \<times> Boat \<times> 'c" where
  "run_events event_run [] input_data boat energy_controller rs =
     (Inr rs, boat, energy_controller)"
| "run_events event_run (event # rest) input_data boat energy_controller rs =
     (let event_start = start (data event);
          event_end = finish (data event);
          event_input_data = in_window event_start event_end input_data
      in case event_run event event_input_data boat energy_controller of
           (Inl e, boat1, energy_controller1) \<Rightarrow> (Inl e, boat1, energy_controller1)
         | (Inr out, boat1, energy_controller1) \<Rightarrow>
             run_events event_run rest input_data boat1 energy_controller1 (rs @ [out]))"

definition Competition_run ::
  "('c, 'r) event_run \<Rightarrow> Competition \<Rightarrow> BoatInputDataSet \<Rightarrow> Boat \<Rightarrow> 'c
     \<Rightarrow> (py_error + 'r CompetitionResult) \<times> Boat \<times> 'c" where
  "Competition_run event_run self input_data boat energy_controller =
     (case events self of
        [] \<Rightarrow> (Inl IndexError, boat, energy_controller)
      | _ # _ \<Rightarrow>
          (let competition_start = start (data (hd (events self)));
               competition_end = finish (data (last (events self)))
           in case Competition_check_input input_data competition_start competition_end of
                Inl e \<Rightarrow> (Inl e, boat, energy_controller)
              | Inr _ \<Rightarrow>
                  (let input_data1 = in_window competition_start competition_end input_data
                   in case run_events event_run (events self) input_data1 boat
                             energy_controller [] of
                        (Inl e, boat1, energy_controller1) \<Rightarrow>
                          (Inl e, boat1, energy_controller1)
                      | (Inr rs, boat1, energy_controller1) \<Rightarrow>
                          (Inr \<lparr> CompetitionResult.name = Competition.name self,
                                  results = rs \<rparr>,
                           boat1, energy_controller1))))"

section \<open>Properties of the battery\<close>

text \<open>The energy invariant of the specification's data model.\<close>

definition energy_invariant :: "Battery \<Rightarrow> bool" where
  "energy_invariant b \<longleftrightarrow>
     minimum_energy b = maximum_energy b * minimum_soc b \<and>
     minimum_energy b \<le> energy b \<and> energy b \<le> maximum_energy b"

text \<open>
  The same invariant for a battery built and run on doubles, whose floor is the
  rounded product.
\<close>

definition energy_invariant64 :: "Battery \<Rightarrow> bool" where
  "energy_invariant64 b \<longleftrightarrow>
     minimum_energy b = fmul (maximum_energy b) (minimum_soc b) \<and>
     minimum_energy b \<le> energy b \<and> energy b \<le> maximum_energy b"

text \<open>
  Three batteries of the source, \<open>Battery(0.5, 0.1, 0.95, 0.1, 500.0)\<close>,
  \<open>Battery(0.5, 0.1, 0.95, 1000.1, 500.0)\<close> and \<open>Battery(0.1, 0.1, 0.95, 1.0, 500.0)\<close>
  (initial state of charge, floor, efficiency, capacity, power limit).
\<close>

definition small_battery :: Battery where
  "small_battery =
     Battery_init64 (1/2) (round64 (1/10)) (round64 (19/20)) (round64 (1/10)) 500"

definition large_battery :: Battery where
  "large_battery =
     Battery_init64 (1/2) (round64 (1/10)) (round64 (19/20)) (round64 (10001/10)) 500"

definition unit_battery :: Battery where
  "unit_battery =
     Battery_init64 (round64 (1/10)) (round64 (1/10)) (round64 (19/20)) 1 500"

section \<open>Auxiliary notions for the properties of the boat and the competition\<close>

text \<open>
  The boat of the specification's end-to-end example (panel of efficiency 0.2 and
  area 2 limited to 1000, battery at half of 1000 with floor 0.1 and efficiency
  0.95, circuits drawing 50), completed with a propulsion chain.
\<close>

definition example_boat :: Boat where
  "example_boat =
     \<lparr> panel = \<lparr>Panel.efficiency = 1/5, area = 2, maximum_output_power = 1000\<rparr>,
       battery = Battery_init (1/2) (1/10) (19/20) 1000 500,
       circuits = \<lparr>power = 50\<rparr>,
       esc = \<lparr>ESC.efficiency = 9/10, ESC.maximum_input_power = 400\<rparr>,
       motor = \<lparr>Motor.efficiency = 8/10, Motor.maximum_input_power = 300\<rparr>,
       propulsion = \<lparr>Propulsion.efficiency = 1/2, Propulsion.maximum_input_power = 250\<rparr>,
       hull' = \<lparr>speed_over_power_constant = 1/100\<rparr> \<rparr>"

text \<open>Whether the outcome of a call is a raised \<open>ValueError\<close>.\<close>

fun is_ValueError :: "py_error + 'a \<Rightarrow> bool" where
  "is_ValueError (Inl (ValueError msg)) = True"
| "is_ValueError r = False"

text \<open>An event collaborator that runs nothing and reports the size of its window.\<close>

definition count_rows :: "(unit, nat) event_run" where
  "count_rows event rows boat energy_controller = (Inr (length rows), boat, energy_controller)"

section \<open>The rounding is to a nearest double\<close>

text \<open>
  For \<open>x \<noteq> 0\<close>, \<open>round64 x\<close> is an integer of 53 bits (between \<open>2 ^ 52\<close> and
  \<open>2 ^ 53\<close> in absolute value) times \<open>2 ^ e\<close>, where \<open>e = exponent64 x\<close> is the
  exponent that brings \<open>\<bar>x\<bar> / 2 ^ e\<close> into \<open>[2 ^ 52, 2 ^ 53)\<close>, and it is at most
  half of \<open>2 ^ e\<close>, the distance between two such numbers, away from \<open>x\<close>. A tie
  goes to the even integer.
\<close>

lemma pow2_powr: "pow2 e = 2 powr (real_of_int e)"
  by (simp add: pow2_def powr_real_of_int field_simps)

lemma pow2_pos: "0 < pow2 e"
  by (simp add: pow2_powr)

lemma pow2_add: "pow2 (a + b) = pow2 a * pow2 b"
  by (simp add: pow2_powr powr_add)

lemma pow2_numeral: "pow2 53 = 2 ^ 53" "pow2 52 = 2 ^ 52" "pow2 1 = 2"
  by (simp_all add: pow2_def)

lemma bitlen_real_bounds:
  fixes a :: real
  assumes "1 \<le> a"
  shows "pow2 (bitlen \<lfloor>a\<rfloor> - 1) \<le> a" and "a < pow2 (bitlen \<lfloor>a\<rfloor>)"
proof -
  let ?n = "\<lfloor>a\<rfloor>"
  have n: "0 < ?n" using assms by linarith
  from bitlen_bounds [OF n]
  have lo: "2 ^ nat (bitlen ?n - 1) \<le> ?n" and hi: "?n < 2 ^ nat (bitlen ?n)" by simp_all
  have k: "1 \<le> bitlen ?n" using n by (simp add: bitlen_alt_def)
  have "pow2 (bitlen ?n - 1) = 2 ^ nat (bitlen ?n - 1)" using k by (simp add: pow2_def)
  also have "\<dots> = real_of_int (2 ^ nat (bitlen ?n - 1))" by simp
  also have "\<dots> \<le> real_of_int ?n" using lo by (simp only: of_int_le_iff)
  also have "\<dots> \<le> a" by simp
  finally show "pow2 (bitlen \<lfloor>a\<rfloor> - 1) \<le> a" .
  have "?n + 1 \<le> 2 ^ nat (bitlen ?n)" using hi by simp
  then have "real_of_int (?n + 1) \<le> real_of_int (2 ^ nat (bitlen ?n))"
    by (simp only: of_int_le_iff)
  then have up: "real_of_int ?n + 1 \<le> 2 ^ nat (bitlen ?n)" by simp
  have "a < real_of_int ?n + 1" by linarith
  also note up
  also have "2 ^ nat (bitlen ?n) = pow2 (bitlen ?n)" using k by (simp add: pow2_def)
  finally show "a < pow2 (bitlen \<lfloor>a\<rfloor>)" .
qed

lemma exponent64_range:
  assumes "x \<noteq> 0"
  shows "2 ^ 52 \<le> \<bar>x\<bar> / pow2 (exponent64 x)" and "\<bar>x\<bar> / pow2 (exponent64 x) < 2 ^ 53"
proof -
  define a where "a = \<bar>x\<bar>"
  have a: "0 < a" using assms by (simp add: a_def)
  have both: "2 ^ 52 \<le> a / pow2 (exponent64 x) \<and> a / pow2 (exponent64 x) < 2 ^ 53"
  proof (cases "1 \<le> a")
    case True
    define k where "k = bitlen \<lfloor>a\<rfloor>"
    from bitlen_real_bounds [OF True]
    have lo: "pow2 (k - 1) \<le> a" and hi: "a < pow2 k" by (simp_all add: k_def)
    have p1: "pow2 (k - 1) = pow2 (k - 53) * 2 ^ 52"
      using pow2_add [of "k - 53" 52] by (simp add: pow2_numeral)
    have p2: "pow2 k = pow2 (k - 53) * 2 ^ 53"
      using pow2_add [of "k - 53" 53] by (simp add: pow2_numeral)
    have l: "2 ^ 52 \<le> a / pow2 (k - 53)"
      using lo p1 pow2_pos [of "k - 53"] by (simp add: field_simps)
    have h: "a / pow2 (k - 53) < 2 ^ 53"
      using hi p2 pow2_pos [of "k - 53"] by (simp add: field_simps)
    have "exponent64 x = k - 53"
      using True h by (simp add: exponent64_def a_def [symmetric] k_def Let_def)
    then show ?thesis using l h by simp
  next
    case False
    define k where "k = bitlen \<lfloor>1 / a\<rfloor>"
    have inv: "1 \<le> 1 / a" using False a by simp
    from bitlen_real_bounds [OF inv]
    have lo: "pow2 (k - 1) \<le> 1 / a" and hi: "1 / a < pow2 k" by (simp_all add: k_def)
    define e where "e = - k - 52"
    have q1: "pow2 (k - 1) * pow2 e = 1 / 2 ^ 53"
      using pow2_add [of "k - 1" e] by (simp add: e_def pow2_def)
    have q2: "pow2 k * pow2 e = 1 / 2 ^ 52"
      using pow2_add [of k e] by (simp add: e_def pow2_def)
    have pe: "0 < pow2 e" by (rule pow2_pos)
    have pk: "0 < pow2 k" "0 < pow2 (k - 1)" by (rule pow2_pos)+
    have "pow2 (k - 1) * a \<le> 1" using lo a by (simp add: field_simps)
    then have "pow2 (k - 1) * pow2 e * a \<le> pow2 e" using pe
      by (metis mult.assoc mult.commute mult_le_cancel_left_pos mult.right_neutral)
    then have "1 / 2 ^ 53 * a \<le> pow2 e" unfolding q1 .
    then have h: "a / pow2 e \<le> 2 ^ 53" using pe by (simp add: field_simps)
    have "1 < pow2 k * a" using hi a by (simp add: field_simps)
    then have "pow2 e < pow2 k * pow2 e * a" using pe
      by (metis mult.assoc mult.commute mult_less_cancel_left_pos mult.right_neutral)
    then have "pow2 e < 1 / 2 ^ 52 * a" unfolding q2 .
    then have l: "2 ^ 52 < a / pow2 e" using pe by (simp add: field_simps)
    have e1: "pow2 (e + 1) = 2 * pow2 e" using pow2_add [of e 1] by (simp add: pow2_numeral)
    show ?thesis
    proof (cases "a / pow2 e \<ge> 2 ^ 53")
      case True
      then have eq: "a / pow2 e = 2 ^ 53" using h by simp
      have "exponent64 x = e + 1"
        using False True by (simp add: exponent64_def a_def [symmetric] k_def e_def Let_def)
      moreover have "a / pow2 (e + 1) = 2 ^ 52" using eq e1 pe by (simp add: field_simps)
      ultimately show ?thesis by simp
    next
      case F: False
      have "exponent64 x = e"
        using False F by (simp add: exponent64_def a_def [symmetric] k_def e_def Let_def)
      then show ?thesis using l F by simp
    qed
  qed
  show "2 ^ 52 \<le> \<bar>x\<bar> / pow2 (exponent64 x)" and "\<bar>x\<bar> / pow2 (exponent64 x) < 2 ^ 53"
    using both by (simp_all add: a_def)
qed

lemma round_half_even_near: "\<bar>of_int (round_half_even s) - s\<bar> \<le> 1 / 2"
  unfolding round_half_even_def Let_def by (auto simp: abs_if) linarith+

lemma round_half_even_of_int: "round_half_even (of_int m) = m"
  by (simp add: round_half_even_def)

lemma round64_near: "\<bar>round64 x - x\<bar> \<le> pow2 (exponent64 x) / 2"
proof (cases "x = 0")
  case True
  then show ?thesis using pow2_pos [of "exponent64 0"] by (simp add: round64_def)
next
  case False
  define e where "e = exponent64 x"
  have pe: "0 < pow2 e" by (rule pow2_pos)
  have "round64 x - x = (of_int (round_half_even (x / pow2 e)) - x / pow2 e) * pow2 e"
    using False pe by (simp add: round64_def e_def [symmetric] Let_def field_simps)
  then have "\<bar>round64 x - x\<bar> = \<bar>of_int (round_half_even (x / pow2 e)) - x / pow2 e\<bar> * pow2 e"
    using pe by (simp add: abs_mult)
  also have "\<dots> \<le> 1 / 2 * pow2 e"
    using round_half_even_near [of "x / pow2 e"] pe by (intro mult_right_mono) simp_all
  finally show ?thesis by (simp add: e_def)
qed

lemma round64_significand:
  assumes "x \<noteq> 0"
  shows "round64 x = of_int (round_half_even (x / pow2 (exponent64 x))) * pow2 (exponent64 x)"
    and "2 ^ 52 \<le> \<bar>round_half_even (x / pow2 (exponent64 x))\<bar>"
    and "\<bar>round_half_even (x / pow2 (exponent64 x))\<bar> \<le> 2 ^ 53"
proof -
  define s where "s = x / pow2 (exponent64 x)"
  have pe: "0 < pow2 (exponent64 x)" by (rule pow2_pos)
  have abs_s: "\<bar>s\<bar> = \<bar>x\<bar> / pow2 (exponent64 x)" using pe by (simp add: s_def abs_divide)
  from exponent64_range [OF assms] have r: "2 ^ 52 \<le> \<bar>s\<bar>" "\<bar>s\<bar> < 2 ^ 53" by (simp_all add: abs_s)
  show "round64 x = of_int (round_half_even (x / pow2 (exponent64 x))) * pow2 (exponent64 x)"
    using assms by (simp add: round64_def Let_def)
  have fl: "\<lfloor>s\<rfloor> \<le> round_half_even s" "round_half_even s \<le> \<lfloor>s\<rfloor> + 1"
    by (simp_all add: round_half_even_def Let_def)
  show "2 ^ 52 \<le> \<bar>round_half_even (x / pow2 (exponent64 x))\<bar>"
  proof (cases "0 \<le> s")
    case True
    then have "(2::real) ^ 52 \<le> s" using r by simp
    then have "(4503599627370496::int) \<le> \<lfloor>s\<rfloor>" by (simp add: le_floor_iff)
    then have "4503599627370496 \<le> round_half_even s" using fl(1) by linarith
    then show ?thesis by (simp add: s_def [symmetric])
  next
    case False
    then have "s \<le> - (2 ^ 52)" using r by simp
    then have "s \<le> real_of_int (- (2 ^ 52))" by simp
    then have "\<lfloor>s\<rfloor> \<le> - (2 ^ 52)" by (metis floor_mono floor_of_int)
    moreover have "round_half_even s \<le> - (2 ^ 52)"
    proof -
      have "\<bar>of_int (round_half_even s) - s\<bar> \<le> 1 / 2" by (rule round_half_even_near)
      then have "real_of_int (round_half_even s) \<le> s + 1 / 2" by linarith
      also have "\<dots> \<le> - (2 ^ 52) + 1 / 2" using \<open>s \<le> - (2 ^ 52)\<close> by simp
      finally have "real_of_int (round_half_even s) < real_of_int (- (2 ^ 52) + 1)" by simp
      then have "round_half_even s < - (2 ^ 52) + 1" by (simp only: of_int_less_iff)
      then show ?thesis by simp
    qed
    ultimately show ?thesis by (simp add: s_def [symmetric])
  qed
  show "\<bar>round_half_even (x / pow2 (exponent64 x))\<bar> \<le> 2 ^ 53"
  proof -
    have n: "\<bar>of_int (round_half_even s) - s\<bar> \<le> 1 / 2" by (rule round_half_even_near)
    have "\<bar>real_of_int (round_half_even s)\<bar> \<le> \<bar>s\<bar> + 1 / 2" using n by linarith
    also have "\<dots> < 2 ^ 53 + 1 / 2" using r by simp
    finally have "\<bar>real_of_int (round_half_even s)\<bar> < real_of_int (2 ^ 53 + 1)" by simp
    then have "real_of_int \<bar>round_half_even s\<bar> < real_of_int (2 ^ 53 + 1)" by simp
    then have "\<bar>round_half_even s\<bar> < 2 ^ 53 + 1" by (simp only: of_int_less_iff)
    then show ?thesis by (simp add: s_def [symmetric])
  qed
qed

lemma round_half_even_tie:
  assumes "s - of_int \<lfloor>s\<rfloor> = 1 / 2"
  shows "even (round_half_even s)"
  using assms by (simp add: round_half_even_def Let_def)

lemma round64_ties:
  "round64 (2 ^ 53 + 1) = 2 ^ 53"
  "round64 (2 ^ 53 + 3) = 2 ^ 53 + 4"
  by code_simp+

section \<open>Closed forms of charging and discharging\<close>

lemma Battery_charge_over:
  assumes "dt \<noteq> 0" and "energy b + p * dt / 3600 * Battery.efficiency b > maximum_energy b"
  shows "Battery_charge dt p b =
           (Inr (p - (energy b + p * dt / 3600 * Battery.efficiency b - maximum_energy b) * 3600 / dt),
            b\<lparr>energy := maximum_energy b\<rparr>)"
  using assms by (simp add: Battery_charge_def naive_energy_def naive_power_def Let_def)

lemma Battery_charge_fits:
  assumes "energy b + p * dt / 3600 * Battery.efficiency b \<le> maximum_energy b"
  shows "Battery_charge dt p b =
           (Inr p, b\<lparr>energy := energy b + p * dt / 3600 * Battery.efficiency b\<rparr>)"
  using assms by (simp add: Battery_charge_def naive_energy_def Let_def)

lemma Battery_discharge_under:
  assumes "dt \<noteq> 0" and "energy b - p * dt / 3600 * Battery.efficiency b < minimum_energy b"
  shows "Battery_discharge dt p b =
           (Inr (p - (minimum_energy b - (energy b - p * dt / 3600 * Battery.efficiency b)) * 3600 / dt),
            b\<lparr>energy := minimum_energy b\<rparr>)"
  using assms by (simp add: Battery_discharge_def naive_energy_def naive_power_def Let_def)

lemma Battery_discharge_fits:
  assumes "minimum_energy b \<le> energy b - p * dt / 3600 * Battery.efficiency b"
  shows "Battery_discharge dt p b =
           (Inr p, b\<lparr>energy := energy b - p * dt / 3600 * Battery.efficiency b\<rparr>)"
  using assms by (simp add: Battery_discharge_def naive_energy_def Let_def)

section \<open>Charging past the capacity, discharging past the floor, in exact arithmetic\<close>

text \<open>
  In exact arithmetic, for \<open>dt > 0\<close> and \<open>power \<ge> 0\<close>, on a battery that
  satisfies the energy invariant, a charge that would overshoot the capacity
  returns an achievable power strictly below the requested one and leaves the
  energy equal to \<open>maximum_energy\<close>: this is what the clamp of \<open>_charge\<close> is
  written to do. The excess energy goes back to a power as
  \<open>exceeded_energy * 3600 / dt\<close>, with no division by the efficiency.
\<close>

lemma Battery_charge_overshoot:
  assumes "dt > 0" and "p \<ge> 0" and "energy_invariant b"
    and "energy b + p * dt / 3600 * Battery.efficiency b > maximum_energy b"
  shows "Battery_charge dt p b =
           (Inr (p - (energy b + p * dt / 3600 * Battery.efficiency b - maximum_energy b)
                       * 3600 / dt),
            b\<lparr>energy := maximum_energy b\<rparr>)
         \<and> p - (energy b + p * dt / 3600 * Battery.efficiency b - maximum_energy b)
                 * 3600 / dt < p
         \<and> energy (snd (Battery_charge dt p b)) = maximum_energy b"
proof -
  from assms(1) have dt: "dt \<noteq> 0" by simp
  note eq = Battery_charge_over [OF dt assms(4)]
  have "(energy b + p * dt / 3600 * Battery.efficiency b - maximum_energy b) * 3600 / dt > 0"
    using assms(1,4) by simp
  then show ?thesis using eq by simp
qed

lemma Battery_charge_overshoot_example:
  "(0::real) < 3600 \<and> (0::real) \<le> 1000
   \<and> energy_invariant (Battery_init (1/2) (1/10) (19/20) 1000 500)
   \<and> Battery_charge 3600 1000 (Battery_init (1/2) (1/10) (19/20) 1000 500)
       = (Inr 550, (Battery_init (1/2) (1/10) (19/20) 1000 500)\<lparr>energy := 1000\<rparr>)"
  using Battery_charge_overshoot [of 3600 1000 "Battery_init (1/2) (1/10) (19/20) 1000 500"]
  by (simp add: energy_invariant_def Battery_init_def)

text \<open>
  In exact arithmetic, likewise, a discharge that would breach the floor returns
  an achievable power strictly below the requested one and leaves the energy
  equal to \<open>minimum_energy\<close>.
\<close>

lemma Battery_discharge_breach:
  assumes "dt > 0" and "p \<ge> 0" and "energy_invariant b"
    and "energy b - p * dt / 3600 * Battery.efficiency b < minimum_energy b"
  shows "Battery_discharge dt p b =
           (Inr (p - (minimum_energy b - (energy b - p * dt / 3600 * Battery.efficiency b))
                       * 3600 / dt),
            b\<lparr>energy := minimum_energy b\<rparr>)
         \<and> p - (minimum_energy b - (energy b - p * dt / 3600 * Battery.efficiency b))
                 * 3600 / dt < p
         \<and> energy (snd (Battery_discharge dt p b)) = minimum_energy b"
proof -
  from assms(1) have dt: "dt \<noteq> 0" by simp
  note eq = Battery_discharge_under [OF dt assms(4)]
  have "(minimum_energy b - (energy b - p * dt / 3600 * Battery.efficiency b)) * 3600 / dt > 0"
    using assms(1,4) by simp
  then show ?thesis using eq by simp
qed

lemma Battery_discharge_breach_example:
  "(0::real) < 3600 \<and> (0::real) \<le> 1000
   \<and> energy_invariant (Battery_init (1/2) (1/10) (19/20) 1000 500)
   \<and> Battery_discharge 3600 1000 (Battery_init (1/2) (1/10) (19/20) 1000 500)
       = (Inr 450, (Battery_init (1/2) (1/10) (19/20) 1000 500)\<lparr>energy := 100\<rparr>)"
  using Battery_discharge_breach [of 3600 1000 "Battery_init (1/2) (1/10) (19/20) 1000 500"]
  by (simp add: energy_invariant_def Battery_init_def)

section \<open>Both branches of charging and discharging at once\<close>

lemma Battery_charge_cases:
  "Battery_charge dt p b =
     (if energy b + p * dt / 3600 * Battery.efficiency b > maximum_energy b
      then (if dt = 0 then Inl ZeroDivisionError
            else Inr (p - (energy b + p * dt / 3600 * Battery.efficiency b - maximum_energy b)
                            * 3600 / dt),
            b\<lparr>energy := maximum_energy b\<rparr>)
      else (Inr p, b\<lparr>energy := energy b + p * dt / 3600 * Battery.efficiency b\<rparr>))"
  by (simp add: Battery_charge_def naive_energy_def naive_power_def Let_def)

lemma Battery_discharge_cases:
  "Battery_discharge dt p b =
     (if energy b - p * dt / 3600 * Battery.efficiency b < minimum_energy b
      then (if dt = 0 then Inl ZeroDivisionError
            else Inr (p - (minimum_energy b - (energy b - p * dt / 3600 * Battery.efficiency b))
                            * 3600 / dt),
            b\<lparr>energy := minimum_energy b\<rparr>)
      else (Inr p, b\<lparr>energy := energy b - p * dt / 3600 * Battery.efficiency b\<rparr>))"
  by (simp add: Battery_discharge_def naive_energy_def naive_power_def Let_def)

lemma Battery_charge_invariant:
  assumes "energy_invariant b" and "0 \<le> p * dt * Battery.efficiency b"
  shows "energy_invariant (snd (Battery_charge dt p b))"
  using assms by (simp add: Battery_charge_cases energy_invariant_def)

lemma Battery_discharge_invariant:
  assumes "energy_invariant b" and "0 \<le> p * dt * Battery.efficiency b"
  shows "energy_invariant (snd (Battery_discharge dt p b))"
  using assms by (simp add: Battery_discharge_cases energy_invariant_def)

lemma Battery_charge_returns:
  "dt \<noteq> 0 \<Longrightarrow> \<exists>q. fst (Battery_charge dt p b) = Inr q"
  by (simp add: Battery_charge_cases)

lemma Battery_discharge_returns:
  "dt \<noteq> 0 \<Longrightarrow> \<exists>q. fst (Battery_discharge dt p b) = Inr q"
  by (simp add: Battery_discharge_cases)

lemma Battery_charge_maximum_energy:
  "maximum_energy (snd (Battery_charge dt p b)) = maximum_energy b"
  by (simp add: Battery_charge_cases)

lemma Battery_discharge_maximum_energy:
  "maximum_energy (snd (Battery_discharge dt p b)) = maximum_energy b"
  by (simp add: Battery_discharge_cases)

lemma Battery_solve_returns:
  assumes "dt \<noteq> 0" and "maximum_energy b \<noteq> 0"
  shows "\<exists>p b'. Battery_solve dt t b = (Inr p, b')"
  using assms by (simp add: Battery_solve_def Battery_charge_cases Battery_discharge_cases)

section \<open>The invariant of solve in exact arithmetic\<close>

text \<open>
  In exact arithmetic, for \<open>dt > 0\<close> and every target power, on a battery that
  satisfies the energy invariant and whose efficiency is not negative,
  \<open>Battery.solve\<close> leaves a battery that satisfies the energy invariant; when
  \<open>maximum_energy\<close> is not zero it returns a power and leaves
  \<open>soc = energy / maximum_energy\<close>.
\<close>

lemma Battery_solve_invariant:
  assumes "dt > 0" and "energy_invariant b" and "0 \<le> Battery.efficiency b"
  shows "energy_invariant (snd (Battery_solve dt t b))
         \<and> (maximum_energy b \<noteq> 0 \<longrightarrow>
              (\<exists>p. fst (Battery_solve dt t b) = Inr p)
              \<and> soc (snd (Battery_solve dt t b))
                  = energy (snd (Battery_solve dt t b))
                      / maximum_energy (snd (Battery_solve dt t b)))"
proof (cases "0 < t")
  case True
  have nn: "0 \<le> \<bar>t\<bar> * dt * Battery.efficiency b" using assms by simp
  obtain r b1 where c: "Battery_charge dt \<bar>t\<bar> b = (r, b1)"
    by (cases "Battery_charge dt \<bar>t\<bar> b")
  have i: "energy_invariant b1" using Battery_charge_invariant [OF assms(2) nn] c by simp
  have m: "maximum_energy b1 = maximum_energy b"
    using Battery_charge_maximum_energy [of dt "\<bar>t\<bar>" b] c by simp
  obtain q where q: "r = Inr q"
    using Battery_charge_returns [of dt "\<bar>t\<bar>" b] assms(1) c by auto
  show ?thesis using True c i m q
    by (auto simp: Battery_solve_def energy_invariant_def)
next
  case False
  have nn: "0 \<le> \<bar>t\<bar> * dt * Battery.efficiency b" using assms by simp
  obtain r b1 where c: "Battery_discharge dt \<bar>t\<bar> b = (r, b1)"
    by (cases "Battery_discharge dt \<bar>t\<bar> b")
  have i: "energy_invariant b1" using Battery_discharge_invariant [OF assms(2) nn] c by simp
  have m: "maximum_energy b1 = maximum_energy b"
    using Battery_discharge_maximum_energy [of dt "\<bar>t\<bar>" b] c by simp
  obtain q where q: "r = Inr q"
    using Battery_discharge_returns [of dt "\<bar>t\<bar>" b] assms(1) c by auto
  show ?thesis using False c i m q
    by (auto simp: Battery_solve_def energy_invariant_def)
qed

lemma Battery_solve_invariant_example:
  "(0::real) < 3600 \<and> energy_invariant (Battery_init (1/2) (1/10) (19/20) 1000 500)
   \<and> (0::real) \<le> Battery.efficiency (Battery_init (1/2) (1/10) (19/20) 1000 500)
   \<and> maximum_energy (Battery_init (1/2) (1/10) (19/20) 1000 500) \<noteq> 0
   \<and> energy_invariant (snd (Battery_solve 3600 1000 (Battery_init (1/2) (1/10) (19/20) 1000 500)))
   \<and> Battery_solve 3600 1000 (Battery_init (1/2) (1/10) (19/20) 1000 500)
       = (Inr 550, (Battery_init (1/2) (1/10) (19/20) 1000 500)\<lparr>energy := 1000, soc := 1\<rparr>)"
  using Battery_solve_invariant [of 3600 "Battery_init (1/2) (1/10) (19/20) 1000 500" 1000]
  by (simp add: energy_invariant_def Battery_init_def Battery_solve_def Battery_charge_cases)

section \<open>The branches of solve\<close>

text \<open>
  C4. For every \<open>dt\<close> and target power, \<open>Battery.solve\<close> returns a power exactly
  when the division that recomputes \<open>soc\<close> is defined and the branch it delegates
  to returns: for a positive target it returns what charging with the absolute
  value returns, otherwise (zero included) the negation of what discharging with
  the absolute value returns; in both branches the battery it leaves is the
  one the branch leaves, with \<open>soc\<close> set to \<open>energy / maximum_energy\<close>.
\<close>

theorem Battery_solve_delegates:
  "Battery_solve dt t b = (Inr p, b') \<longleftrightarrow>
     maximum_energy b \<noteq> 0 \<and>
     (\<exists>b1. (if 0 < t then Battery_charge dt \<bar>t\<bar> b = (Inr p, b1)
               else Battery_discharge dt \<bar>t\<bar> b = (Inr (- p), b1))
           \<and> b' = b1\<lparr>soc := energy b1 / maximum_energy b1\<rparr>)"
proof (cases "0 < t")
  case True
  obtain r b1 where c: "Battery_charge dt \<bar>t\<bar> b = (r, b1)"
    by (cases "Battery_charge dt \<bar>t\<bar> b")
  have m: "maximum_energy b1 = maximum_energy b"
    using Battery_charge_maximum_energy [of dt "\<bar>t\<bar>" b] c by simp
  show ?thesis using True c m
    by (cases r) (auto simp: Battery_solve_def)
next
  case False
  obtain r b1 where c: "Battery_discharge dt \<bar>t\<bar> b = (r, b1)"
    by (cases "Battery_discharge dt \<bar>t\<bar> b")
  have m: "maximum_energy b1 = maximum_energy b"
    using Battery_discharge_maximum_energy [of dt "\<bar>t\<bar>" b] c by simp
  show ?thesis using False c m
    by (cases r) (auto simp: Battery_solve_def)
qed

theorem Battery_solve_delegates_witness:
  "Battery_discharge 3600 \<bar>0\<bar> (Battery_init (1/2) (1/10) (19/20) 1000 500)
     = (Inr (- 0), Battery_init (1/2) (1/10) (19/20) 1000 500)
   \<and> Battery_solve 3600 0 (Battery_init (1/2) (1/10) (19/20) 1000 500)
     = (Inr 0, (Battery_init (1/2) (1/10) (19/20) 1000 500)\<lparr>soc := 500 / 1000\<rparr>)"
  using Battery_solve_delegates [of 3600 0 "Battery_init (1/2) (1/10) (19/20) 1000 500" 0
      "(Battery_init (1/2) (1/10) (19/20) 1000 500)\<lparr>soc := 500 / 1000\<rparr>"]
  by (simp add: Battery_init_def Battery_discharge_cases)

section \<open>A charge followed by the discharge of what it achieved, in exact arithmetic\<close>

lemma roundtrip_fits:
  assumes "energy_invariant b"
    and "energy b + p * dt / 3600 * Battery.efficiency b \<le> maximum_energy b"
  shows "Battery_charge dt p b
           = (Inr p, b\<lparr>energy := energy b + p * dt / 3600 * Battery.efficiency b\<rparr>)"
    and "Battery_discharge dt p (b\<lparr>energy := energy b + p * dt / 3600 * Battery.efficiency b\<rparr>)
           = (Inr p, b)"
  using assms by (simp_all add: Battery_charge_cases Battery_discharge_cases energy_invariant_def)

lemma roundtrip_over_energy:
  fixes dt p X eff e0 emax :: real
  assumes "dt > 0" and "X = e0 + p * dt / 3600 * eff - emax"
  shows "emax - (p - X * 3600 / dt) * dt / 3600 * eff = e0 - (1 - eff) * X"
proof -
  define A where "A = p * dt / 3600"
  have "(p - X * 3600 / dt) * dt / 3600 = A - X"
    using assms(1) by (simp add: field_simps A_def)
  then have "emax - (p - X * 3600 / dt) * dt / 3600 * eff = emax - (A - X) * eff"
    by simp
  moreover have "emax = e0 + A * eff - X" using assms(2) by (simp add: A_def)
  ultimately show ?thesis by (simp add: algebra_simps)
qed

text \<open>
  In exact arithmetic, for \<open>dt > 0\<close> and \<open>power \<ge> 0\<close>, on a battery that
  satisfies the energy invariant and whose efficiency is at most 1, \<open>_charge\<close>
  returns an achievable power and \<open>_discharge\<close> of that power returns too. The
  energy left is never above the original one, and it is below it by at most
  \<open>(1 - efficiency)\<close> times the energy the charge discarded at the capacity:
  nothing is lost when the charge fits, and with a non-negative efficiency the
  loss is at most \<open>(1 - efficiency)\<close> of the energy the charge tried to store.
\<close>

lemma Battery_charge_then_discharge:
  assumes "dt > 0" and "p \<ge> 0" and "energy_invariant b" and "Battery.efficiency b \<le> 1"
  shows "\<exists>p' b1 p'' b2.
           Battery_charge dt p b = (Inr p', b1) \<and> Battery_discharge dt p' b1 = (Inr p'', b2)
           \<and> energy b2 \<le> energy b
           \<and> energy b - (1 - Battery.efficiency b)
                 * max 0 (energy b + p * dt / 3600 * Battery.efficiency b - maximum_energy b)
               \<le> energy b2
           \<and> (0 \<le> Battery.efficiency b \<longrightarrow>
                energy b - (1 - Battery.efficiency b) * (p * dt / 3600 * Battery.efficiency b)
                  \<le> energy b2)
           \<and> (energy b + p * dt / 3600 * Battery.efficiency b \<le> maximum_energy b
                \<longrightarrow> energy b2 = energy b)"
proof (cases "energy b + p * dt / 3600 * Battery.efficiency b \<le> maximum_energy b")
  case True
  have "0 \<le> Battery.efficiency b \<Longrightarrow>
          0 \<le> (1 - Battery.efficiency b) * (p * dt / 3600 * Battery.efficiency b)"
    using assms(1,2,4) by simp
  with roundtrip_fits [OF assms(3) True] True show ?thesis by simp
next
  case False
  define X where "X = energy b + p * dt / 3600 * Battery.efficiency b - maximum_energy b"
  define p' where "p' = p - X * 3600 / dt"
  define b1 where "b1 = b\<lparr>energy := maximum_energy b\<rparr>"
  have X: "0 < X" using False by (simp add: X_def)
  have dt: "dt \<noteq> 0" using assms(1) by simp
  have c: "Battery_charge dt p b = (Inr p', b1)"
    using False dt by (simp add: Battery_charge_cases p'_def X_def b1_def)
  have raw: "energy b1 - p' * dt / 3600 * Battery.efficiency b1
               = energy b - (1 - Battery.efficiency b) * X"
    using roundtrip_over_energy [OF assms(1) X_def] by (simp add: b1_def p'_def)
  have loss: "0 \<le> (1 - Battery.efficiency b) * X" using X assms(4) by simp
  have inv: "minimum_energy b \<le> energy b" "energy b \<le> maximum_energy b"
    using assms(3) by (simp_all add: energy_invariant_def)
  have XA: "X \<le> p * dt / 3600 * Battery.efficiency b" using inv(2) by (simp add: X_def)
  have lossA: "(1 - Battery.efficiency b) * X
                 \<le> (1 - Battery.efficiency b) * (p * dt / 3600 * Battery.efficiency b)"
    using XA assms(4) by (intro mult_left_mono) simp_all
  have m: "minimum_energy b1 = minimum_energy b" by (simp add: b1_def)
  obtain p'' b2 where d: "Battery_discharge dt p' b1 = (Inr p'', b2)"
    and e: "energy b2 = max (minimum_energy b) (energy b - (1 - Battery.efficiency b) * X)"
    using dt raw m by (cases "energy b - (1 - Battery.efficiency b) * X < minimum_energy b")
      (simp_all add: Battery_discharge_cases)
  have mx: "max 0 X = X" using X by simp
  have 1: "energy b2 \<le> energy b" using e loss inv(1) by simp
  have 2: "energy b - (1 - Battery.efficiency b) * X \<le> energy b2" using e by simp
  have 3: "energy b - (1 - Battery.efficiency b) * (p * dt / 3600 * Battery.efficiency b)
             \<le> energy b2" using 2 lossA by simp
  show ?thesis using c d 1 2 3 False mx unfolding X_def by auto
qed

lemma Battery_charge_then_discharge_example:
  "(0::real) < 3600 \<and> (0::real) \<le> 1000
   \<and> energy_invariant (Battery_init (1/2) (1/10) (19/20) 1000 500)
   \<and> Battery.efficiency (Battery_init (1/2) (1/10) (19/20) 1000 500) \<le> 1
   \<and> Battery_charge 3600 1000 (Battery_init (1/2) (1/10) (19/20) 1000 500)
       = (Inr 550, (Battery_init (1/2) (1/10) (19/20) 1000 500)\<lparr>energy := 1000\<rparr>)
   \<and> Battery_discharge 3600 550 ((Battery_init (1/2) (1/10) (19/20) 1000 500)\<lparr>energy := 1000\<rparr>)
       = (Inr 550, (Battery_init (1/2) (1/10) (19/20) 1000 500)\<lparr>energy := 955 / 2\<rparr>)
   \<and> (955 / 2 :: real) \<le> energy (Battery_init (1/2) (1/10) (19/20) 1000 500)"
  using Battery_charge_then_discharge [of 3600 1000 "Battery_init (1/2) (1/10) (19/20) 1000 500"]
  by (simp add: energy_invariant_def Battery_init_def Battery_charge_cases Battery_discharge_cases)

section \<open>The clamps on doubles\<close>

text \<open>
  \<open>_charge\<close> and \<open>_discharge\<close> do not assign the bound: they subtract, or add,
  the excess they have just computed (\<open>self.energy -= exceeded_energy\<close>,
  \<open>self.energy += exceeded_energy\<close>). In exact arithmetic that is the bound. On
  doubles the excess is rounded when it is computed and the energy is rounded
  again when the excess is taken back, and the two roundings need not cancel.
  The roundings that the evaluations below perform are these.
\<close>

lemma binary64_roundings:
  "round64 (1 / 10) = 3602879701896397 / 36028797018963968"
  "round64 (19 / 20) = 4278419646001971 / 4503599627370496"
  "fmul (1 / 2) (3602879701896397 / 36028797018963968) = 3602879701896397 / 72057594037927936"
  "fmul (3602879701896397 / 36028797018963968) (3602879701896397 / 36028797018963968) = 1441151880758559 / 144115188075855872"
  "fmul 1000 3600 = 3600000"
  "fdiv 3600000 3600 = 1000"
  "fmul 1000 (4278419646001971 / 4503599627370496) = 950"
  "fadd (3602879701896397 / 72057594037927936) 950 = 4178364087874355 / 4398046511104"
  "fsub (4178364087874355 / 4398046511104) (3602879701896397 / 36028797018963968) = 8355848566446489 / 8796093022208"
  "fsub (4178364087874355 / 4398046511104) (8355848566446489 / 8796093022208) = 879609302221 / 8796093022208"
  "fmul (8355848566446489 / 8796093022208) 3600 = 7344007529103359 / 2147483648"
  "fdiv (7344007529103359 / 2147483648) 3600 = 1044481070805811 / 1099511627776"
  "fsub 1000 (1044481070805811 / 1099511627776) = 55030556970189 / 1099511627776"
  "fsub (3602879701896397 / 72057594037927936) 950 = - (4177924283223245 / 4398046511104)"
  "fsub (1441151880758559 / 144115188075855872) (- (4177924283223245 / 4398046511104)) = 1044492065922089 / 1099511627776"
  "fadd (- (4177924283223245 / 4398046511104)) (1044492065922089 / 1099511627776) = 43980465111 / 4398046511104"
  "fmul (1044492065922089 / 1099511627776) 3600 = 3419856"
  "fdiv 3419856 3600 = 1044492065922089 / 1099511627776"
  "fsub 1000 (1044492065922089 / 1099511627776) = 55019561853911 / 1099511627776"
  "round64 (10001 / 10) = 8796972631510221 / 8796093022208"
  "fmul (1 / 2) (8796972631510221 / 8796093022208) = 8796972631510221 / 17592186044416"
  "fmul (8796972631510221 / 8796093022208) (3602879701896397 / 36028797018963968) = 7037578105208177 / 70368744177664"
  "fmul 5000 3600 = 18000000"
  "fdiv 18000000 3600 = 5000"
  "fmul 5000 (4278419646001971 / 4503599627370496) = 4750"
  "fadd (8796972631510221 / 17592186044416) 4750 = 5772491021405389 / 1099511627776"
  "fsub (5772491021405389 / 1099511627776) (8796972631510221 / 8796093022208) = 4672869442466611 / 1099511627776"
  "fsub (5772491021405389 / 1099511627776) (4672869442466611 / 1099511627776) = 549810789469389 / 549755813888"
  "fmul (4672869442466611 / 1099511627776) 3600 = 15299820"
  "fdiv 15299820 3600 = 4672869442466611 / 1099511627776"
  "fsub 5000 (4672869442466611 / 1099511627776) = 824688696413389 / 1099511627776"
  "fdiv (549810789469389 / 549755813888) (8796972631510221 / 8796093022208) = 2251799813685249 / 2251799813685248"
  "fmul (3602879701896397 / 36028797018963968) 1 = 3602879701896397 / 36028797018963968"
  "fmul 1 (3602879701896397 / 36028797018963968) = 3602879701896397 / 36028797018963968"
  "fadd (3602879701896397 / 36028797018963968) 950 = 8357167980399821 / 8796093022208"
  "fsub (8357167980399821 / 8796093022208) 1 = 8348371887377613 / 8796093022208"
  "fsub (8357167980399821 / 8796093022208) (8348371887377613 / 8796093022208) = 1"
  "fmul (8348371887377613 / 8796093022208) 3600 = 3416760"
  "fdiv 3416760 3600 = 8348371887377613 / 8796093022208"
  "fsub 1000 (8348371887377613 / 8796093022208) = 447721134830387 / 8796093022208"
  "fmul (447721134830387 / 8796093022208) 3600 = 6296078458552317 / 34359738368"
  "fdiv (6296078458552317 / 34359738368) 3600 = 447721134830387 / 8796093022208"
  "fmul (447721134830387 / 8796093022208) (4278419646001971 / 4503599627370496) = 3402680624710941 / 70368744177664"
  "fsub 1 (3402680624710941 / 70368744177664) = - (3332311880533277 / 70368744177664)"
  "fsub (3602879701896397 / 36028797018963968) (- (3332311880533277 / 70368744177664)) = 6678697509902087 / 140737488355328"
  "fadd (- (3332311880533277 / 70368744177664)) (6678697509902087 / 140737488355328) = 14073748835533 / 140737488355328"
  "fmul (6678697509902087 / 140737488355328) 3600 = 5869948983312381 / 34359738368"
  "fdiv (5869948983312381 / 34359738368) 3600 = 6678697509902087 / 140737488355328"
  "fsub (447721134830387 / 8796093022208) (6678697509902087 / 140737488355328) = 484840647384105 / 140737488355328"
  by code_simp+

lemma small_battery_value:
  "small_battery =
     \<lparr> Battery.efficiency = 4278419646001971 / 4503599627370496,
       energy = 3602879701896397 / 72057594037927936,
       soc = 1 / 2,
       minimum_soc = 3602879701896397 / 36028797018963968,
       maximum_energy = 3602879701896397 / 36028797018963968,
       minimum_energy = 1441151880758559 / 144115188075855872,
       maximum_power = 500 \<rparr>"
  by (simp add: small_battery_def Battery_init64_def binary64_roundings)

lemma large_battery_value:
  "large_battery =
     \<lparr> Battery.efficiency = 4278419646001971 / 4503599627370496,
       energy = 8796972631510221 / 17592186044416,
       soc = 1 / 2,
       minimum_soc = 3602879701896397 / 36028797018963968,
       maximum_energy = 8796972631510221 / 8796093022208,
       minimum_energy = 7037578105208177 / 70368744177664,
       maximum_power = 500 \<rparr>"
  by (simp add: large_battery_def Battery_init64_def binary64_roundings)

lemma unit_battery_value:
  "unit_battery =
     \<lparr> Battery.efficiency = 4278419646001971 / 4503599627370496,
       energy = 3602879701896397 / 36028797018963968,
       soc = 3602879701896397 / 36028797018963968,
       minimum_soc = 3602879701896397 / 36028797018963968,
       maximum_energy = 1,
       minimum_energy = 3602879701896397 / 36028797018963968,
       maximum_power = 500 \<rparr>"
  by (simp add: unit_battery_def Battery_init64_def binary64_roundings)

lemma small_battery_charge:
  "Battery_charge64 3600 1000 small_battery =
     (Inr (55030556970189 / 1099511627776),
      small_battery\<lparr>energy := 879609302221 / 8796093022208\<rparr>)"
  by (simp add: small_battery_value Battery_charge64_def naive_energy64_def naive_power64_def
        binary64_roundings Let_def)

lemma small_battery_discharge:
  "Battery_discharge64 3600 1000 small_battery =
     (Inr (55019561853911 / 1099511627776),
      small_battery\<lparr>energy := 43980465111 / 4398046511104\<rparr>)"
  by (simp add: small_battery_value Battery_discharge64_def naive_energy64_def naive_power64_def
        binary64_roundings Let_def)

lemma large_battery_solve:
  "Battery_solve64 3600 5000 large_battery =
     (Inr (824688696413389 / 1099511627776),
      large_battery\<lparr>energy := 549810789469389 / 549755813888,
                     soc := 2251799813685249 / 2251799813685248\<rparr>)"
  by (simp add: large_battery_value Battery_solve64_def Battery_charge64_def naive_energy64_def
        naive_power64_def binary64_roundings Let_def)

lemma unit_battery_charge:
  "Battery_charge64 3600 1000 unit_battery =
     (Inr (447721134830387 / 8796093022208), unit_battery\<lparr>energy := 1\<rparr>)"
  by (simp add: unit_battery_value Battery_charge64_def naive_energy64_def naive_power64_def
        binary64_roundings Let_def)

lemma unit_battery_discharge:
  "Battery_discharge64 3600 (447721134830387 / 8796093022208) (unit_battery\<lparr>energy := 1\<rparr>) =
     (Inr (484840647384105 / 140737488355328),
      unit_battery\<lparr>energy := 14073748835533 / 140737488355328\<rparr>)"
  by (simp add: unit_battery_value Battery_discharge64_def naive_energy64_def naive_power64_def
        binary64_roundings Let_def)

text \<open>
  C2. The specification asks that a charge which would overshoot the capacity
  leave \<open>energy\<close> equal to \<open>maximum_energy\<close> exactly. The code misses it:
  \<open>Battery(0.5, 0.1, 0.95, 0.1, 500.0)._charge(3600.0, 1000.0)\<close> meets every
  hypothesis of the claim (\<open>dt > 0\<close>, \<open>power \<ge> 0\<close>, the energy invariant, the
  overshoot) and returns an achievable power below 1000, but leaves
  \<open>energy = 879609302221 / 2 ^ 43\<close> (0.10000000000002274) where
  \<open>maximum_energy = 3602879701896397 / 2 ^ 55\<close> (the double 0.1).
\<close>

theorem Battery_charge64_misses_capacity:
  "(0::real) < 3600 \<and> (0::real) \<le> 1000 \<and> energy_invariant64 small_battery
   \<and> maximum_energy small_battery
        < energy small_battery + 1000 * 3600 / 3600 * Battery.efficiency small_battery
   \<and> \<not> isl (fst (Battery_charge64 3600 1000 small_battery))
   \<and> projr (fst (Battery_charge64 3600 1000 small_battery)) < 1000
   \<and> maximum_energy (snd (Battery_charge64 3600 1000 small_battery))
        = 3602879701896397 / 36028797018963968
   \<and> energy (snd (Battery_charge64 3600 1000 small_battery)) = 879609302221 / 8796093022208
   \<and> energy (snd (Battery_charge64 3600 1000 small_battery))
        \<noteq> maximum_energy (snd (Battery_charge64 3600 1000 small_battery))"
  by (simp add: small_battery_charge) (simp add: small_battery_value energy_invariant64_def binary64_roundings)

text \<open>
  C3. The specification asks that a discharge which would breach the floor leave
  \<open>energy\<close> equal to \<open>minimum_energy\<close> exactly. The code misses it:
  \<open>Battery(0.5, 0.1, 0.95, 0.1, 500.0)._discharge(3600.0, 1000.0)\<close> meets every
  hypothesis of the claim and returns an achievable power below 1000, but
  leaves \<open>energy = 43980465111 / 2 ^ 42\<close> (0.009999999999990905) where
  \<open>minimum_energy = 1441151880758559 / 2 ^ 57\<close> (0.010000000000000002).
\<close>

theorem Battery_discharge64_misses_floor:
  "(0::real) < 3600 \<and> (0::real) \<le> 1000 \<and> energy_invariant64 small_battery
   \<and> energy small_battery - 1000 * 3600 / 3600 * Battery.efficiency small_battery
        < minimum_energy small_battery
   \<and> \<not> isl (fst (Battery_discharge64 3600 1000 small_battery))
   \<and> projr (fst (Battery_discharge64 3600 1000 small_battery)) < 1000
   \<and> minimum_energy (snd (Battery_discharge64 3600 1000 small_battery))
        = 1441151880758559 / 144115188075855872
   \<and> energy (snd (Battery_discharge64 3600 1000 small_battery)) = 43980465111 / 4398046511104
   \<and> energy (snd (Battery_discharge64 3600 1000 small_battery))
        \<noteq> minimum_energy (snd (Battery_discharge64 3600 1000 small_battery))"
  by (simp add: small_battery_discharge)
     (simp add: small_battery_value energy_invariant64_def binary64_roundings)

text \<open>
  C1. The specification asks that \<open>solve\<close> keep
  \<open>minimum_energy \<le> energy \<le> maximum_energy\<close>. The code misses it through the
  same clamp: \<open>Battery(0.5, 0.1, 0.95, 1000.1, 500.0).solve(3600.0, 5000.0)\<close>
  starts within the invariant and returns, leaving
  \<open>energy = 549810789469389 / 2 ^ 39\<close> (1000.1000000000004) above
  \<open>maximum_energy = 8796972631510221 / 2 ^ 43\<close> (the double 1000.1), and a \<open>soc\<close>
  above 1.
\<close>

theorem Battery_solve64_breaks_invariant:
  "(0::real) < 3600 \<and> energy_invariant64 large_battery
   \<and> \<not> isl (fst (Battery_solve64 3600 5000 large_battery))
   \<and> maximum_energy (snd (Battery_solve64 3600 5000 large_battery))
        = 8796972631510221 / 8796093022208
   \<and> energy (snd (Battery_solve64 3600 5000 large_battery)) = 549810789469389 / 549755813888
   \<and> maximum_energy (snd (Battery_solve64 3600 5000 large_battery))
        < energy (snd (Battery_solve64 3600 5000 large_battery))
   \<and> soc (snd (Battery_solve64 3600 5000 large_battery)) = 2251799813685249 / 2251799813685248
   \<and> 1 < soc (snd (Battery_solve64 3600 5000 large_battery))
   \<and> \<not> energy_invariant64 (snd (Battery_solve64 3600 5000 large_battery))"
  by (simp add: large_battery_solve)
     (simp add: large_battery_value energy_invariant64_def binary64_roundings)

text \<open>
  C7. The specification asks that a charge followed by the discharge of the
  achieved power never leave the energy above its original value. The code
  misses it through the same clamp, here the one of \<open>_discharge\<close>:
  \<open>Battery(0.1, 0.1, 0.95, 1.0, 500.0)\<close>, of efficiency between 0 and 1, starts
  at \<open>energy = 3602879701896397 / 2 ^ 55\<close> (the double 0.1, its floor); after
  \<open>_charge(3600.0, 1000.0)\<close> and \<open>_discharge\<close> of the returned power it holds
  \<open>14073748835533 / 2 ^ 47\<close> (0.10000000000000142).
\<close>

theorem Battery_charge64_then_discharge64_gains:
  "(0::real) < 3600 \<and> (0::real) \<le> 1000 \<and> energy_invariant64 unit_battery
   \<and> 0 < Battery.efficiency unit_battery \<and> Battery.efficiency unit_battery \<le> 1
   \<and> energy unit_battery = 3602879701896397 / 36028797018963968
   \<and> \<not> isl (fst (Battery_charge64 3600 1000 unit_battery))
   \<and> \<not> isl (fst (Battery_discharge64 3600
                     (projr (fst (Battery_charge64 3600 1000 unit_battery)))
                     (snd (Battery_charge64 3600 1000 unit_battery))))
   \<and> energy (snd (Battery_discharge64 3600
                     (projr (fst (Battery_charge64 3600 1000 unit_battery)))
                     (snd (Battery_charge64 3600 1000 unit_battery))))
        = 14073748835533 / 140737488355328
   \<and> energy unit_battery
        < energy (snd (Battery_discharge64 3600
                     (projr (fst (Battery_charge64 3600 1000 unit_battery)))
                     (snd (Battery_charge64 3600 1000 unit_battery))))"
  by (simp add: unit_battery_charge unit_battery_discharge)
     (simp add: unit_battery_value energy_invariant64_def binary64_roundings)

section \<open>The field maximum_power\<close>

lemma Battery_solve_maximum_power_update:
  "Battery_solve dt t (b\<lparr>maximum_power := m\<rparr>) =
     (fst (Battery_solve dt t b), (snd (Battery_solve dt t b))\<lparr>maximum_power := m\<rparr>)"
  by (simp add: Battery_solve_def Battery_charge_cases Battery_discharge_cases)

text \<open>
  C10. Two batteries that agree on every field except \<open>maximum_power\<close> give, for
  every \<open>dt\<close> and target power, the same result of \<open>Battery.solve\<close> (the same
  power or the same exception) and the same \<open>energy\<close> and \<open>soc\<close> afterwards.
\<close>

theorem Battery_solve_ignores_maximum_power:
  assumes "Battery.efficiency b1 = Battery.efficiency b2" and "energy b1 = energy b2"
    and "soc b1 = soc b2" and "minimum_soc b1 = minimum_soc b2"
    and "maximum_energy b1 = maximum_energy b2" and "minimum_energy b1 = minimum_energy b2"
  shows "fst (Battery_solve dt t b1) = fst (Battery_solve dt t b2)
         \<and> energy (snd (Battery_solve dt t b1)) = energy (snd (Battery_solve dt t b2))
         \<and> soc (snd (Battery_solve dt t b1)) = soc (snd (Battery_solve dt t b2))"
proof -
  have "b1 = b2\<lparr>maximum_power := maximum_power b1\<rparr>" using assms by simp
  then have "Battery_solve dt t b1 = (fst (Battery_solve dt t b2),
               (snd (Battery_solve dt t b2))\<lparr>maximum_power := maximum_power b1\<rparr>)"
    using Battery_solve_maximum_power_update [where b = b2 and m = "maximum_power b1"] by simp
  then show ?thesis by simp
qed

theorem Battery_solve_ignores_maximum_power_witness:
  "fst (Battery_solve 3600 1000 (Battery_init (1/2) (1/10) (19/20) 1000 500))
     = fst (Battery_solve 3600 1000 (Battery_init (1/2) (1/10) (19/20) 1000 1))
   \<and> fst (Battery_solve 3600 1000 (Battery_init (1/2) (1/10) (19/20) 1000 1)) = Inr 550
   \<and> maximum_power (Battery_init (1/2) (1/10) (19/20) 1000 500)
       \<noteq> maximum_power (Battery_init (1/2) (1/10) (19/20) 1000 1)"
  using Battery_solve_ignores_maximum_power [of "Battery_init (1/2) (1/10) (19/20) 1000 500"
      "Battery_init (1/2) (1/10) (19/20) 1000 1" 3600 1000]
  by (simp add: Battery_init_def Battery_solve_def Battery_charge_cases)

section \<open>The panel\<close>

lemma Panel_solve_output_min:
  "Panel_solve_output self irradiation
     = min (irradiation * area self * Panel.efficiency self) (maximum_output_power self)"
  by (simp add: Panel_solve_output_def Let_def min_def)

text \<open>
  C5, as the code has it. For every irradiation, \<open>Panel.solve_output\<close> returns the
  smaller of \<open>irradiation * area * efficiency\<close> and \<open>maximum_output_power\<close>, so
  never more than \<open>maximum_output_power\<close>. Where that product is not negative the
  result is \<open>clip(irradiation * area * efficiency, 0, maximum_output_power)\<close>,
  and it is not negative when \<open>maximum_output_power\<close> is not negative either.
\<close>

theorem Panel_solve_output_upper_clamp:
  "Panel_solve_output self irradiation
     = min (irradiation * area self * Panel.efficiency self) (maximum_output_power self)
   \<and> Panel_solve_output self irradiation \<le> maximum_output_power self
   \<and> (0 \<le> irradiation * area self * Panel.efficiency self \<longrightarrow>
        Panel_solve_output self irradiation
          = np_clip (irradiation * area self * Panel.efficiency self) 0 (maximum_output_power self))
   \<and> (0 \<le> irradiation * area self * Panel.efficiency self \<and> 0 \<le> maximum_output_power self
        \<longrightarrow> 0 \<le> Panel_solve_output self irradiation)"
  by (simp add: Panel_solve_output_min np_clip_def)

theorem Panel_solve_output_upper_clamp_witness:
  "(0::real) \<le> 800 * 2 * (1/5) \<and> (0::real) \<le> 1000
   \<and> Panel_solve_output \<lparr>Panel.efficiency = 1/5, area = 2, maximum_output_power = 1000\<rparr> 800 = 320
   \<and> np_clip (800 * 2 * (1/5)) 0 1000 = 320"
  using Panel_solve_output_upper_clamp
    [of "\<lparr>Panel.efficiency = 1/5, area = 2, maximum_output_power = 1000\<rparr>" 800]
  by (simp add: np_clip_def)

text \<open>
  C5 as the specification states it fails for a negative irradiation: the method
  clamps from above only. The panel of the specification's example, under an
  irradiation of -100, returns -40, where the clip gives 0.
\<close>

theorem Panel_solve_output_counterexample:
  "Panel_solve_output \<lparr>Panel.efficiency = 1/5, area = 2, maximum_output_power = 1000\<rparr> (- 100) = - 40
   \<and> np_clip ((- 100) * 2 * (1/5)) 0 1000 = 0
   \<and> Panel_solve_output \<lparr>Panel.efficiency = 1/5, area = 2, maximum_output_power = 1000\<rparr> (- 100) < 0"
  by (simp add: Panel_solve_output_def np_clip_def Let_def)

section \<open>One time step of the boat\<close>

lemma Boat_run_returns_iff:
  "(\<exists>out self1. Boat_run dt irradiation motor_throttle self = (Inr out, self1))
     \<longleftrightarrow> (\<exists>p b1. Battery_solve dt
            (Panel_solve_output (panel self) irradiation - target_esc_input self motor_throttle
               - Other.power (circuits self)) (battery self) = (Inr p, b1))"
  by (auto simp: Boat_run_def Let_def split: prod.splits sum.splits)

text \<open>
  C6. Whenever \<open>Boat.run\<close> returns a record, its actual ESC input power is at
  most the target ESC input power (the three input clamps applied to the
  throttle, which the record stores under \<open>battery_target_power\<close>), and its
  actual PV output power is at most the target PV output power. It returns a
  record whenever \<open>dt\<close> and the battery's \<open>maximum_energy\<close> are not zero.
\<close>

theorem Boat_run_actual_le_target:
  "(\<forall>out self1. Boat_run dt irradiation motor_throttle self = (Inr out, self1) \<longrightarrow>
        esc_input_power out \<le> target_esc_input self motor_throttle
      \<and> pv_output_power out \<le> Panel_solve_output (panel self) irradiation
      \<and> pv_target_power out = Panel_solve_output (panel self) irradiation
      \<and> battery_target_power out = target_esc_input self motor_throttle)
   \<and> (dt \<noteq> 0 \<and> maximum_energy (battery self) \<noteq> 0 \<longrightarrow>
        (\<exists>out self1. Boat_run dt irradiation motor_throttle self = (Inr out, self1)))"
proof -
  have "\<exists>out self1. Boat_run dt irradiation motor_throttle self = (Inr out, self1)"
    if "dt \<noteq> 0" and "maximum_energy (battery self) \<noteq> 0"
    using Battery_solve_returns [OF that] Boat_run_returns_iff by blast
  moreover have "esc_input_power out \<le> target_esc_input self motor_throttle
      \<and> pv_output_power out \<le> Panel_solve_output (panel self) irradiation
      \<and> pv_target_power out = Panel_solve_output (panel self) irradiation
      \<and> battery_target_power out = target_esc_input self motor_throttle"
    if "Boat_run dt irradiation motor_throttle self = (Inr out, self1)" for out self1
    using that by (auto simp: Boat_run_def Let_def split: prod.splits sum.splits)
  ultimately show ?thesis by blast
qed

theorem Boat_run_actual_le_target_witness:
  "(36000::real) \<noteq> 0 \<and> maximum_energy (battery example_boat) \<noteq> 0
   \<and> Boat_run 36000 0 1 example_boat
       = (Inr \<lparr> pv_output_power = 0, battery_stored_energy = 100, battery_soc = 1/10,
                 battery_output_power = - 55, esc_input_power = 5, esc_output_power = 9/2,
                 motor_output_power = 9/2, propulsive_output_power = 9/5, hull_speed = 9/500,
                 pv_target_power = 0, esc_target_power = - 300, battery_target_power = 250,
                 motor_target_throttle = 1 \<rparr>,
          example_boat\<lparr>battery := (battery example_boat)\<lparr>energy := 100, soc := 1/10\<rparr>\<rparr>)
   \<and> target_esc_input example_boat 1 = 250
   \<and> Panel_solve_output (panel example_boat) 0 = 0
   \<and> (5::real) \<le> 250 \<and> (0::real) \<le> 0"
  using Boat_run_actual_le_target [of 36000 0 1 example_boat]
  by (simp add: example_boat_def Boat_run_def Battery_init_def Battery_solve_def
        Battery_discharge_cases target_esc_input_def Panel_solve_output_def
        ESC_solve_input_def ESC_solve_output_def Motor_solve_input_def Motor_solve_output_def
        Propulsion_solve_input_def Propulsion_solve_output_def Hull_solve_output_def
        np_clip_def Let_def)

text \<open>
  C9. Whenever \<open>Boat.run\<close> returns a record, its \<open>motor_output_power\<close> equals its
  \<open>esc_output_power\<close>, the output of the ESC stage. The motor's own output is
  computed all the same and feeds the propulsion stage: the propulsive output
  power is the ESC output times the motor's and the propulsion's efficiencies.
\<close>

theorem Boat_run_motor_output_is_esc_output:
  "(\<forall>out self1. Boat_run dt irradiation motor_throttle self = (Inr out, self1) \<longrightarrow>
        motor_output_power out = esc_output_power out
      \<and> esc_output_power out = ESC_solve_output (esc self) (esc_input_power out)
      \<and> propulsive_output_power out
          = Propulsion_solve_output (propulsion self)
              (Motor_solve_output (motor self) (esc_output_power out))
      \<and> propulsive_output_power out
          = esc_output_power out * Motor.efficiency (motor self)
              * Propulsion.efficiency (propulsion self)
      \<and> hull_speed out = Hull_solve_output (hull' self) (propulsive_output_power out))"
  by (auto simp: Boat_run_def Let_def Motor_solve_output_def Propulsion_solve_output_def
           split: prod.splits sum.splits)

theorem Boat_run_motor_output_is_esc_output_witness:
  "Boat_run 3600 800 1 example_boat
       = (Inr \<lparr> pv_output_power = 320, battery_stored_energy = 519, battery_soc = 519/1000,
                 battery_output_power = 20, esc_input_power = 250, esc_output_power = 225,
                 motor_output_power = 225, propulsive_output_power = 90, hull_speed = 9/10,
                 pv_target_power = 320, esc_target_power = 20, battery_target_power = 250,
                 motor_target_throttle = 1 \<rparr>,
          example_boat\<lparr>battery := (battery example_boat)\<lparr>energy := 519, soc := 519/1000\<rparr>\<rparr>)
   \<and> Motor_solve_output (motor example_boat) 225 = 180"
  using Boat_run_motor_output_is_esc_output [of 3600 800 1 example_boat]
  by (simp add: example_boat_def Boat_run_def Battery_init_def Battery_solve_def
        Battery_charge_cases target_esc_input_def Panel_solve_output_def
        ESC_solve_input_def ESC_solve_output_def Motor_solve_input_def Motor_solve_output_def
        Propulsion_solve_input_def Propulsion_solve_output_def Hull_solve_output_def
        np_clip_def Let_def)

section \<open>The validation of the competition's input\<close>

lemma is_ValueError_Inl: "is_ValueError (Inl e) \<longleftrightarrow> (\<exists>msg. e = ValueError msg)"
  by (cases e) simp_all

lemma run_events_error:
  "fst (run_events er evs inp boat ec rs) = Inl e
     \<Longrightarrow> \<exists>ev d b c. ev \<in> set evs \<and> fst (er ev d b c) = Inl e"
proof (induction evs arbitrary: boat ec rs)
  case Nil
  then show ?case by simp
next
  case (Cons ev evs)
  obtain r b1 c1 where step: "er ev (in_window (start (data ev)) (finish (data ev)) inp) boat ec = (r, b1, c1)"
    by (cases "er ev (in_window (start (data ev)) (finish (data ev)) inp) boat ec") auto
  show ?case
  proof (cases r)
    case (Inl e')
    with Cons.prems step have "e' = e" by (simp add: Let_def)
    with Inl step have "fst (er ev (in_window (start (data ev)) (finish (data ev)) inp) boat ec) = Inl e"
      by simp
    then show ?thesis by (metis list.set_intros(1))
  next
    case (Inr out)
    with Cons.prems step have "fst (run_events er evs inp b1 c1 (rs @ [out])) = Inl e"
      by (simp add: Let_def)
    from Cons.IH [OF this] show ?thesis by (metis list.set_intros(2))
  qed
qed

lemma run_events_no_ValueError:
  assumes "\<forall>ev d b c. \<not> is_ValueError (fst (er ev d b c))"
  shows "\<not> is_ValueError (fst (run_events er evs inp boat ec rs))"
proof
  assume v: "is_ValueError (fst (run_events er evs inp boat ec rs))"
  then obtain msg where "fst (run_events er evs inp boat ec rs) = Inl (ValueError msg)"
    by (cases "fst (run_events er evs inp boat ec rs)" rule: is_ValueError.cases) auto
  from run_events_error [OF this] obtain ev d b c where "fst (er ev d b c) = Inl (ValueError msg)"
    by blast
  then have "is_ValueError (fst (er ev d b c))" by simp
  with assms show False by blast
qed

lemma Competition_check_input_cases:
  assumes "input_data \<noteq> []"
  shows "Competition_check_input input_data s e =
           (if time (hd input_data) > s
            then Inl (ValueError ''Given data can't start after the first event's start'')
            else if time (last input_data) < e
            then Inl (ValueError ''Given data can't end before the first event's end.'')
            else Inr ())"
  using assms by (cases input_data) (simp_all add: Competition_check_input_def)

text \<open>
  C8. For a competition with at least one event and an input series with at
  least one row: when the first timestamp of the series is after the first
  event's start, or its last timestamp is before the last event's end,
  \<open>Competition.run\<close> raises a \<open>ValueError\<close> with a descriptive message, whatever
  the events would do, and leaves the boat and the energy controller as they
  were; otherwise it runs the events in order on the series cut to the
  competition's window. With events that raise no \<open>ValueError\<close> of their own, it
  raises a \<open>ValueError\<close> exactly in the two cases above.
\<close>

theorem Competition_run_validation:
  assumes "events self \<noteq> []" and "input_data \<noteq> []"
  shows "(time (hd input_data) > start (data (hd (events self))) \<longrightarrow>
            Competition_run event_run self input_data boat ec
              = (Inl (ValueError ''Given data can't start after the first event's start''),
                 boat, ec))
       \<and> (\<not> time (hd input_data) > start (data (hd (events self)))
            \<and> time (last input_data) < finish (data (last (events self))) \<longrightarrow>
            Competition_run event_run self input_data boat ec
              = (Inl (ValueError ''Given data can't end before the first event's end.''),
                 boat, ec))
       \<and> (\<not> time (hd input_data) > start (data (hd (events self)))
            \<and> \<not> time (last input_data) < finish (data (last (events self))) \<longrightarrow>
            Competition_run event_run self input_data boat ec
              = (case run_events event_run (events self)
                        (in_window (start (data (hd (events self))))
                           (finish (data (last (events self)))) input_data)
                        boat ec [] of
                   (Inl e, boat1, ec1) \<Rightarrow> (Inl e, boat1, ec1)
                 | (Inr rs, boat1, ec1) \<Rightarrow>
                     (Inr \<lparr> CompetitionResult.name = Competition.name self, results = rs \<rparr>,
                      boat1, ec1)))
       \<and> ((\<forall>ev d b c. \<not> is_ValueError (fst (event_run ev d b c))) \<longrightarrow>
            (is_ValueError (fst (Competition_run event_run self input_data boat ec))
               \<longleftrightarrow> time (hd input_data) > start (data (hd (events self)))
                    \<or> time (last input_data) < finish (data (last (events self)))))"
proof -
  obtain ev evs where evs: "events self = ev # evs" using assms(1) by (cases "events self") auto
  note chk = Competition_check_input_cases [OF assms(2)]
  have run: "Competition_run event_run self input_data boat ec =
     (case Competition_check_input input_data (start (data (hd (events self))))
             (finish (data (last (events self)))) of
        Inl e \<Rightarrow> (Inl e, boat, ec)
      | Inr u \<Rightarrow>
          (case run_events event_run (events self)
                  (in_window (start (data (hd (events self))))
                     (finish (data (last (events self)))) input_data)
                  boat ec [] of
             (Inl e, boat1, ec1) \<Rightarrow> (Inl e, boat1, ec1)
           | (Inr rs, boat1, ec1) \<Rightarrow>
               (Inr \<lparr> CompetitionResult.name = Competition.name self, results = rs \<rparr>,
                boat1, ec1)))"
    unfolding Competition_run_def Let_def evs by simp
  have a: "time (hd input_data) > start (data (hd (events self))) \<Longrightarrow>
            Competition_run event_run self input_data boat ec
              = (Inl (ValueError ''Given data can't start after the first event's start''),
                 boat, ec)"
    unfolding run chk by simp
  have b: "\<not> time (hd input_data) > start (data (hd (events self)))
            \<Longrightarrow> time (last input_data) < finish (data (last (events self))) \<Longrightarrow>
            Competition_run event_run self input_data boat ec
              = (Inl (ValueError ''Given data can't end before the first event's end.''),
                 boat, ec)"
    unfolding run chk by simp
  have c: "\<not> time (hd input_data) > start (data (hd (events self)))
            \<Longrightarrow> \<not> time (last input_data) < finish (data (last (events self))) \<Longrightarrow>
            Competition_run event_run self input_data boat ec
              = (case run_events event_run (events self)
                        (in_window (start (data (hd (events self))))
                           (finish (data (last (events self)))) input_data)
                        boat ec [] of
                   (Inl e, boat1, ec1) \<Rightarrow> (Inl e, boat1, ec1)
                 | (Inr rs, boat1, ec1) \<Rightarrow>
                     (Inr \<lparr> CompetitionResult.name = Competition.name self, results = rs \<rparr>,
                      boat1, ec1))"
    unfolding run chk by simp
  have d: "is_ValueError (fst (Competition_run event_run self input_data boat ec))
               \<longleftrightarrow> time (hd input_data) > start (data (hd (events self)))
                    \<or> time (last input_data) < finish (data (last (events self)))"
    if nv: "\<forall>ev d b c. \<not> is_ValueError (fst (event_run ev d b c))"
  proof (cases "time (hd input_data) > start (data (hd (events self)))
                    \<or> time (last input_data) < finish (data (last (events self)))")
    case True
    then show ?thesis using a b by (cases "time (hd input_data) > start (data (hd (events self)))") auto
  next
    case False
    let ?re = "run_events event_run (events self)
                        (in_window (start (data (hd (events self))))
                           (finish (data (last (events self)))) input_data)
                        boat ec []"
    have "\<not> is_ValueError (fst ?re)" by (rule run_events_no_ValueError [OF nv])
    moreover have "is_ValueError (fst (Competition_run event_run self input_data boat ec))
                     = is_ValueError (fst ?re)"
      using c False by (cases ?re rule: prod_cases3) (auto simp: is_ValueError_Inl split: sum.splits)
    ultimately show ?thesis using False by simp
  qed
  show ?thesis using a b c d by blast
qed

theorem Competition_run_validation_witness:
  "Competition_run count_rows
      \<lparr>name = ''regatta'', events = [\<lparr>data = \<lparr>start = - 1, finish = 10\<rparr>\<rparr>]\<rparr>
      [\<lparr>time = 0, poa = 800\<rparr>, \<lparr>time = 10, poa = 800\<rparr>] example_boat ()
     = (Inl (ValueError ''Given data can't start after the first event's start''),
        example_boat, ())
   \<and> Competition_run count_rows
      \<lparr>name = ''regatta'', events = [\<lparr>data = \<lparr>start = 0, finish = 11\<rparr>\<rparr>]\<rparr>
      [\<lparr>time = 0, poa = 800\<rparr>, \<lparr>time = 10, poa = 800\<rparr>] example_boat ()
     = (Inl (ValueError ''Given data can't end before the first event's end.''),
        example_boat, ())
   \<and> Competition_run count_rows
      \<lparr>name = ''regatta'',
       events = [\<lparr>data = \<lparr>start = 0, finish = 5\<rparr>\<rparr>, \<lparr>data = \<lparr>start = 5, finish = 10\<rparr>\<rparr>]\<rparr>
      [\<lparr>time = 0, poa = 800\<rparr>, \<lparr>time = 5, poa = 800\<rparr>, \<lparr>time = 10, poa = 800\<rparr>]
      example_boat ()
     = (Inr \<lparr>CompetitionResult.name = ''regatta'', results = [2, 2]\<rparr>, example_boat, ())
   \<and> (\<forall>ev d b c. \<not> is_ValueError (fst (count_rows ev d b c)))"
  using
    Competition_run_validation [of
      "\<lparr>name = ''regatta'', events = [\<lparr>data = \<lparr>start = - 1, finish = 10\<rparr>\<rparr>]\<rparr>"
      "[\<lparr>time = 0, poa = 800\<rparr>, \<lparr>time = 10, poa = 800\<rparr>]" count_rows example_boat "()"]
    Competition_run_validation [of
      "\<lparr>name = ''regatta'', events = [\<lparr>data = \<lparr>start = 0, finish = 11\<rparr>\<rparr>]\<rparr>"
      "[\<lparr>time = 0, poa = 800\<rparr>, \<lparr>time = 10, poa = 800\<rparr>]" count_rows example_boat "()"]
    Competition_run_validation [of
      "\<lparr>name = ''regatta'',
       events = [\<lparr>data = \<lparr>start = 0, finish = 5\<rparr>\<rparr>, \<lparr>data = \<lparr>start = 5, finish = 10\<rparr>\<rparr>]\<rparr>"
      "[\<lparr>time = 0, poa = 800\<rparr>, \<lparr>time = 5, poa = 800\<rparr>, \<lparr>time = 10, poa = 800\<rparr>]"
      count_rows example_boat "()"]
  by (simp add: count_rows_def in_window_def Let_def)

end
